theory Spec2Isabelle
  imports Complex_Main
begin

section \<open>The chat-completion client: data model\<close>

text \<open>
  The development follows the class \<open>ChatCompletionAPI\<close> (constructor, \<open>sendMessage\<close>,
  \<open>getMessageHistory\<close>, \<open>setMessageHistory\<close>, \<open>buildMessage\<close>), the types of \<open>types.ts\<close>
  and the class \<open>CompletionError\<close>.

  Modelling decisions:
  \<^item> A JavaScript array is an object with identity: \<open>getMessageHistory\<close> returns either the
    array held in the cache or a new array made by \<open>slice\<close>, \<open>push\<close> changes the array it
    is called on, and \<open>setMessageHistory\<close> stores the caller's array itself. Arrays
    therefore live in a store from addresses to their contents, the cache maps a
    conversation id to an address, and a new array takes the next unused address.
  \<^item> The cache is a plain object used as a dictionary; it is a map from strings to
    addresses. A conversation id that names a property which every object inherits
    (\<open>constructor\<close>, \<open>toString\<close>, \<open>__proto__\<close> and the like) reads that property instead of
    an entry; such ids are outside the model.
  \<^item> An options object is a map from its keys to values, and the object literal that
    \<open>sendMessage\<close> passes to \<open>buildMessage\<close> is such a map too: the per-call options are
    spread into it after \<open>name\<close>, \<open>content\<close> and \<open>role\<close>, so whatever keys they hold take
    part.
  \<^item> \<open>sendMessage\<close> awaits one call of the external client. The call is a parameter: a
    function from the submitted request to what the awaited promise delivers. A response
    is given by what the code reads of it: its status text, its body, and whether
    \<open>JSON.stringify\<close> of it throws.
  \<^item> \<open>maxMessages\<close> is a count and is an integer here. Completion parameters such as
    \<open>temperature\<close> are only stored and compared, never computed with; their numbers are
    exact reals.
\<close>

datatype Role = User | Assistant | System

fun role_string :: "Role \<Rightarrow> string" where
  "role_string User = ''user''"
| "role_string Assistant = ''assistant''"
| "role_string System = ''system''"

record ChatMessage =
  role :: Role
  content :: string
  name :: "string option"

record ChatMessageRequest =
  req_name :: string
  req_text :: string
  req_conversationId :: string
  req_role :: "Role option"
  req_systemMessage :: "string option"

text \<open>Values of object properties, and an object as a map from its keys.\<close>

datatype jsval = Undefined | JNull | JBool bool | JNum real | JStr string | JStrs "string list"

type_synonym ChatCompletionOpts = "string \<rightharpoonup> jsval"

definition get_prop :: "ChatCompletionOpts \<Rightarrow> string \<Rightarrow> jsval" where
  "get_prop obj k = (case obj k of None \<Rightarrow> Undefined | Some v \<Rightarrow> v)"

text \<open>Object spread \<open>{...base, ...over}\<close>; spreading \<open>undefined\<close> adds nothing.\<close>

definition spread :: "ChatCompletionOpts \<Rightarrow> ChatCompletionOpts option \<Rightarrow> ChatCompletionOpts" where
  "spread base over = (case over of None \<Rightarrow> base | Some obj \<Rightarrow> base ++ obj)"

text \<open>
  \<open>a || b\<close> is \<open>a\<close> when \<open>a\<close> is truthy and \<open>b\<close> otherwise. The falsy values are
  \<open>undefined\<close>, \<open>null\<close>, \<open>false\<close>, zero and the empty string; an array is truthy.
\<close>

fun js_truthy :: "jsval \<Rightarrow> bool" where
  "js_truthy Undefined = False"
| "js_truthy JNull = False"
| "js_truthy (JBool b) = b"
| "js_truthy (JNum x) = (x \<noteq> 0)"
| "js_truthy (JStr s) = (s \<noteq> [])"
| "js_truthy (JStrs xs) = True"

definition js_or :: "jsval \<Rightarrow> jsval \<Rightarrow> jsval" where
  "js_or a b = (if js_truthy a then a else b)"

record ChatCompletionAPIOptions =
  opt_apiKey :: "string option"
  opt_debug :: "bool option"
  opt_completionParams :: "ChatCompletionOpts option"
  opt_systemMessage :: "string option"
  opt_maxMessages :: "int option"

text \<open>
  An element of \<open>messagesInput\<close>, the list that \<open>buildMessage\<close> fills: an object with the
  properties \<open>name\<close>, \<open>role\<close> and \<open>content\<close>. The last element takes them from the object
  literal of \<open>sendMessage\<close>, where they can be any value; a property that is not there
  reads as \<open>undefined\<close>.
\<close>

record MessageInput =
  in_role :: jsval
  in_content :: jsval
  in_name :: jsval

text \<open>\<open>{name: msg.name, role: msg.role, content: msg.content}\<close> for a message of the history.\<close>

definition js_message :: "ChatMessage \<Rightarrow> MessageInput" where
  "js_message msg =
     \<lparr>in_role = JStr (role_string (role msg)), in_content = JStr (content msg),
      in_name = (case name msg of None \<Rightarrow> Undefined | Some n \<Rightarrow> JStr n)\<rparr>"

text \<open>The request object built for the external call: \<open>messages\<close> and the remaining keys.\<close>

record CreateChatCompletionRequest =
  request_params :: ChatCompletionOpts
  messages :: "MessageInput list"

text \<open>
  The parts of the external response that the code reads or returns. The body \<open>data\<close> is
  \<open>null\<close> or \<open>undefined\<close>, or a value without a property \<open>choices\<close> (the empty string, an
  error object), or a completion payload. \<open>stringify_throws\<close> holds the message of the
  TypeError that \<open>JSON.stringify\<close> of the response throws, as it does on an object that
  refers back to itself; the responses of the HTTP transport do, through their request.
\<close>

record ChatCompletionResponseMessage =
  rm_role :: Role
  rm_content :: string

record Choice =
  choice_message :: "ChatCompletionResponseMessage option"

record ChatResponseDetail =
  detail_id :: string
  detail_created :: int
  detail_model :: string
  detail_usage :: "(int \<times> int \<times> int) option"
  choices :: "Choice list"

datatype response_data = Nullish | Without_choices | Payload ChatResponseDetail

record AxiosResponse =
  statusText :: string
  data :: response_data
  stringify_throws :: "string option"

record ChatResponseMessage = ChatMessage +
  detail :: ChatResponseDetail

text \<open>
  A value thrown inside \<open>try\<close>, as \<open>catch (e: any)\<close> reads it: \<open>e.message\<close>, \<open>e.type\<close>,
  \<open>e.param\<close> and \<open>e.code\<close>. A TypeError of the language has a message and none of the
  other three; its wording is the engine's.
\<close>

record Thrown =
  thrown_message :: string
  thrown_type :: "string option"
  thrown_param :: "string option"
  thrown_code :: "string option"

definition TypeError :: "string \<Rightarrow> Thrown" where
  "TypeError m = \<lparr>thrown_message = m, thrown_type = None, thrown_param = None, thrown_code = None\<rparr>"

definition READ_OF_UNDEFINED :: string where
  "READ_OF_UNDEFINED = ''Cannot read properties of undefined (reading '0')''"

record CompletionError =
  err_message :: string
  err_type :: "string option"
  err_param :: "string option"
  err_code :: "string option"

definition new_CompletionError ::
  "string \<Rightarrow> string option \<Rightarrow> string option \<Rightarrow> string option \<Rightarrow> CompletionError" where
  "new_CompletionError m t p c = \<lparr>err_message = m, err_type = t, err_param = p, err_code = c\<rparr>"

text \<open>A \<open>CompletionError\<close> as a thrown value.\<close>

definition throw_CompletionError :: "CompletionError \<Rightarrow> Thrown" where
  "throw_CompletionError e =
     \<lparr>thrown_message = err_message e, thrown_type = err_type e, thrown_param = err_param e,
      thrown_code = err_code e\<rparr>"

datatype api_outcome = Rejected Thrown | Resolved AxiosResponse

datatype construction_error = Error string

section \<open>The instance and its arrays\<close>

type_synonym addr = nat

record ChatCompletionAPI =
  arrays :: "addr \<rightharpoonup> ChatMessage list"
  next_addr :: addr
  messagesCache :: "string \<rightharpoonup> addr"
  completionParams :: ChatCompletionOpts
  systemMessage :: string
  debug :: bool
  apiKey :: string
  maxMessages :: int

definition deref :: "ChatCompletionAPI \<Rightarrow> addr \<Rightarrow> ChatMessage list" where
  "deref this a = (case arrays this a of None \<Rightarrow> [] | Some xs \<Rightarrow> xs)"

definition new_array :: "ChatCompletionAPI \<Rightarrow> ChatMessage list \<Rightarrow> addr \<times> ChatCompletionAPI" where
  "new_array this xs =
     (next_addr this,
      this\<lparr>arrays := (arrays this)(next_addr this \<mapsto> xs), next_addr := Suc (next_addr this)\<rparr>)"

definition array_push :: "ChatCompletionAPI \<Rightarrow> addr \<Rightarrow> ChatMessage \<Rightarrow> ChatCompletionAPI" where
  "array_push this a m = this\<lparr>arrays := (arrays this)(a \<mapsto> deref this a @ [m])\<rparr>"

text \<open>
  \<open>Array.prototype.slice(start)\<close> with one argument: a negative start counts from the
  end, and the start is clamped to the array. The integer \<open>-0\<close> is \<open>0\<close>.
\<close>

definition js_slice :: "'a list \<Rightarrow> int \<Rightarrow> 'a list" where
  "js_slice xs start =
     (let len = int (length xs);
          k = (if start < 0 then max (len + start) 0 else min start len)
      in drop (nat k) xs)"

text \<open>
  Arrays are never reused: every array the cache refers to was made before the next one.
\<close>

definition cache_allocated :: "ChatCompletionAPI \<Rightarrow> bool" where
  "cache_allocated this \<longleftrightarrow>
     (\<forall>cid a. messagesCache this cid = Some a \<longrightarrow> a < next_addr this)"

section \<open>Operations\<close>

definition DEFAULT_MODEL :: string where
  "DEFAULT_MODEL = ''gpt-3.5-turbo''"

definition DEFAULT_MAX_MESSAGES :: int where
  "DEFAULT_MAX_MESSAGES = 100"

definition DEFAULT_SYSTEM_MESSAGE :: string where
  "DEFAULT_SYSTEM_MESSAGE = ''You are a helpful assistant.''"

definition default_completionParams :: ChatCompletionOpts where
  "default_completionParams =
     [''model'' \<mapsto> JStr DEFAULT_MODEL,
      ''temperature'' \<mapsto> JNum 0.8,
      ''top_p'' \<mapsto> JNum 1.0,
      ''presence_penalty'' \<mapsto> JNum 1.0]"

text \<open>
  The constructor. \<open>!this._apiKey\<close> holds for an absent key and for the empty string.
\<close>

definition constructor :: "ChatCompletionAPIOptions \<Rightarrow> construction_error + ChatCompletionAPI" where
  "constructor opts =
     (let debug' = (case opt_debug opts of None \<Rightarrow> False | Some d \<Rightarrow> d);
          systemMessage' =
            (case opt_systemMessage opts of None \<Rightarrow> DEFAULT_SYSTEM_MESSAGE | Some s \<Rightarrow> s);
          maxMessages' =
            (case opt_maxMessages opts of None \<Rightarrow> DEFAULT_MAX_MESSAGES | Some n \<Rightarrow> n);
          completionParams' = spread default_completionParams (opt_completionParams opts)
      in case opt_apiKey opts of
           None \<Rightarrow> Inl (Error ''OpenAI missing required apiKey'')
         | Some k \<Rightarrow>
             if k = [] then Inl (Error ''OpenAI missing required apiKey'')
             else Inr \<lparr>arrays = Map.empty, next_addr = 0, messagesCache = Map.empty,
                       completionParams = completionParams', systemMessage = systemMessage',
                       debug = debug', apiKey = k, maxMessages = maxMessages'\<rparr>)"

text \<open>
  \<open>this._messagesCache[id] = this._messagesCache[id] || []\<close>: an array is truthy, so only
  an absent entry is replaced, by a new empty array.
\<close>

definition cache_entry :: "ChatCompletionAPI \<Rightarrow> string \<Rightarrow> addr \<times> ChatCompletionAPI" where
  "cache_entry this conversationId =
     (case messagesCache this conversationId of
        Some a \<Rightarrow> (a, this)
      | None \<Rightarrow>
          (case new_array this [] of
             (a, this') \<Rightarrow> (a, this'\<lparr>messagesCache := (messagesCache this')(conversationId \<mapsto> a)\<rparr>)))"

definition getMessageHistory :: "ChatCompletionAPI \<Rightarrow> string \<Rightarrow> addr \<times> ChatCompletionAPI" where
  "getMessageHistory this conversationId =
     (let maxMessages' = maxMessages this - 1
      in case cache_entry this conversationId of
           (messageHistory, this') \<Rightarrow>
             if int (length (deref this' messageHistory)) > maxMessages'
             then new_array this' (js_slice (deref this' messageHistory) (- maxMessages'))
             else (messageHistory, this'))"

text \<open>
  \<open>setMessageHistory\<close> stores the reference it is given: the cache then holds the caller's
  array, at the address it has in the store.
\<close>

definition setMessageHistory :: "ChatCompletionAPI \<Rightarrow> string \<Rightarrow> addr \<Rightarrow> ChatCompletionAPI" where
  "setMessageHistory this conversationId messageHistory =
     this\<lparr>messagesCache := (messagesCache this)(conversationId \<mapsto> messageHistory)\<rparr>"

text \<open>
  \<open>buildMessage\<close>. Its parameter \<open>message\<close> is the object that \<open>sendMessage\<close> builds; the
  last element of the list reads \<open>name\<close>, \<open>role\<close> and \<open>content\<close> from it. Of the completion
  parameters the request takes the instance's \<open>model\<close> and nothing else.
\<close>

definition buildMessage ::
  "ChatCompletionAPI \<Rightarrow> string \<Rightarrow> ChatCompletionOpts \<Rightarrow> string option
     \<Rightarrow> CreateChatCompletionRequest \<times> ChatCompletionAPI" where
  "buildMessage this conversationId message systemMessage_arg =
     (let systemMessage' =
            (case systemMessage_arg of None \<Rightarrow> systemMessage this | Some s \<Rightarrow> s);
          messagesInput0 =
            [\<lparr>in_role = JStr ''system'', in_content = JStr systemMessage', in_name = Undefined\<rparr>]
      in case getMessageHistory this conversationId of
           (h, this') \<Rightarrow>
             (let messagesInput1 = messagesInput0 @ map js_message (deref this' h);
                  messagesInput2 =
                    messagesInput1 @
                    [\<lparr>in_role = js_or (get_prop message ''role'') (JStr ''user''),
                      in_content = get_prop message ''content'',
                      in_name = get_prop message ''name''\<rparr>]
              in (\<lparr>request_params = [''model'' \<mapsto> get_prop (completionParams this) ''model''],
                   messages = messagesInput2\<rparr>, this')))"

text \<open>
  \<open>completion.data?.choices[0]?.message\<close>. The first \<open>?.\<close> gives \<open>undefined\<close> for a body that
  is \<open>null\<close> or \<open>undefined\<close>; there is none after \<open>choices\<close>, so a body without that
  property makes the index a read of \<open>undefined\<close>, which throws a TypeError. For a payload
  the result is the message of the first choice, given here with the payload it belongs
  to, or \<open>undefined\<close> when there is no first choice or it has no message.
\<close>

definition first_message ::
  "AxiosResponse \<Rightarrow> Thrown + (ChatResponseDetail \<times> ChatCompletionResponseMessage) option" where
  "first_message completion =
     (case data completion of
        Nullish \<Rightarrow> Inr None
      | Without_choices \<Rightarrow> Inl (TypeError READ_OF_UNDEFINED)
      | Payload d \<Rightarrow>
          (case choices d of
             [] \<Rightarrow> Inr None
           | c # _ \<Rightarrow>
               (case choice_message c of None \<Rightarrow> Inr None | Some m \<Rightarrow> Inr (Some (d, m)))))"

text \<open>\<open>this.getMessageHistory(conversationId).push(m)\<close>\<close>

definition push_history :: "ChatCompletionAPI \<Rightarrow> string \<Rightarrow> ChatMessage \<Rightarrow> ChatCompletionAPI" where
  "push_history this conversationId m =
     (case getMessageHistory this conversationId of (a, this') \<Rightarrow> array_push this' a m)"

text \<open>
  The first statement of \<open>sendMessage\<close>: destructuring, with \<open>user\<close> for an absent role, and
  the call of \<open>buildMessage\<close> on the object \<open>{name: name, content: text, role: role, ...opts}\<close>.
\<close>

definition chatCompletionRequest ::
  "ChatCompletionAPI \<Rightarrow> ChatMessageRequest \<Rightarrow> ChatCompletionOpts option
     \<Rightarrow> CreateChatCompletionRequest \<times> ChatCompletionAPI" where
  "chatCompletionRequest this chatRequest opts =
     (let role' = (case req_role chatRequest of None \<Rightarrow> User | Some r \<Rightarrow> r)
      in buildMessage this (req_conversationId chatRequest)
           (spread [''name'' \<mapsto> JStr (req_name chatRequest),
                    ''content'' \<mapsto> JStr (req_text chatRequest),
                    ''role'' \<mapsto> JStr (role_string role')] opts)
           (req_systemMessage chatRequest))"

text \<open>
  The body of \<open>try\<close>: a thrown value is \<open>Inl\<close>, together with the instance as it is at the
  throw. After the awaited call come the debug output, where \<open>JSON.stringify\<close> of the
  response can throw, the test for a message, the two pushes and the result.
\<close>

definition try_block ::
  "ChatCompletionAPI \<Rightarrow> ChatMessageRequest \<Rightarrow> api_outcome
     \<Rightarrow> (Thrown + ChatResponseMessage) \<times> ChatCompletionAPI" where
  "try_block this chatRequest outcome =
     (let role' = (case req_role chatRequest of None \<Rightarrow> User | Some r \<Rightarrow> r);
          conversationId = req_conversationId chatRequest
      in case outcome of
           Rejected e \<Rightarrow> (Inl e, this)
         | Resolved completion \<Rightarrow>
             (case (if debug this then stringify_throws completion else None) of
                Some m \<Rightarrow> (Inl (TypeError m), this)
              | None \<Rightarrow>
                  (case first_message completion of
                     Inl e \<Rightarrow> (Inl e, this)
                   | Inr None \<Rightarrow>
                       (Inl (throw_CompletionError
                               (new_CompletionError (statusText completion) None None None)),
                        this)
                   | Inr (Some (d, m)) \<Rightarrow>
                       (let this1 = push_history this conversationId
                              \<lparr>role = role', content = req_text chatRequest,
                               name = Some (req_name chatRequest)\<rparr>;
                            this2 = push_history this1 conversationId
                              \<lparr>role = rm_role m, content = rm_content m, name = None\<rparr>
                        in (Inr \<lparr>role = rm_role m, content = rm_content m, name = None,
                                 detail = d\<rparr>, this2)))))"

text \<open>
  \<open>sendMessage\<close>: the request, the body of \<open>try\<close>, and \<open>catch\<close>, which makes a
  \<open>CompletionError\<close> of the four properties of whatever was thrown. The debug output of
  \<open>catch\<close> prints the caught value and does nothing else.
\<close>

definition sendMessage ::
  "(CreateChatCompletionRequest \<Rightarrow> api_outcome) \<Rightarrow> ChatCompletionAPI \<Rightarrow> ChatMessageRequest
     \<Rightarrow> ChatCompletionOpts option
     \<Rightarrow> (CompletionError + ChatResponseMessage) \<times> ChatCompletionAPI" where
  "sendMessage createChatCompletion this chatRequest opts =
     (case chatCompletionRequest this chatRequest opts of
        (request, this') \<Rightarrow>
          (case try_block this' chatRequest (createChatCompletion request) of
             (Inl e, this'') \<Rightarrow>
               (Inl (new_CompletionError (thrown_message e) (thrown_type e) (thrown_param e)
                       (thrown_code e)),
                this'')
           | (Inr r, this'') \<Rightarrow> (Inr r, this'')))"

section \<open>What a caller observes\<close>

text \<open>The contents of the array that \<open>getMessageHistory\<close> returns.\<close>

definition history :: "ChatCompletionAPI \<Rightarrow> string \<Rightarrow> ChatMessage list" where
  "history this conversationId =
     (case getMessageHistory this conversationId of (a, this') \<Rightarrow> deref this' a)"

text \<open>The contents of the array the cache holds for a conversation; none is empty.\<close>

definition stored :: "ChatCompletionAPI \<Rightarrow> string \<Rightarrow> ChatMessage list" where
  "stored this conversationId =
     (case messagesCache this conversationId of None \<Rightarrow> [] | Some a \<Rightarrow> deref this a)"

section \<open>Concrete inputs\<close>

text \<open>
  Inputs on which the operations are evaluated below: construction options with only a key
  and a message cap, the instances they construct, a request on conversation \<open>c1\<close>,
  behaviours of the external call, and per-call options. The responses are those of the
  transport: \<open>JSON.stringify\<close> throws on them.
\<close>

definition options_with :: "int option \<Rightarrow> ChatCompletionAPIOptions" where
  "options_with mm =
     \<lparr>opt_apiKey = Some ''k'', opt_debug = None, opt_completionParams = None,
      opt_systemMessage = None, opt_maxMessages = mm\<rparr>"

definition fresh_instance :: "int \<Rightarrow> ChatCompletionAPI" where
  "fresh_instance mm =
     \<lparr>arrays = Map.empty, next_addr = 0, messagesCache = Map.empty,
      completionParams = default_completionParams, systemMessage = DEFAULT_SYSTEM_MESSAGE,
      debug = False, apiKey = ''k'', maxMessages = mm\<rparr>"

definition debug_instance :: ChatCompletionAPI where
  "debug_instance = (fresh_instance 100)\<lparr>debug := True\<rparr>"

definition ask :: "string \<Rightarrow> ChatMessageRequest" where
  "ask t =
     \<lparr>req_name = ''John'', req_text = t, req_conversationId = ''c1'', req_role = None,
      req_systemMessage = None\<rparr>"

definition payload_with :: "string \<Rightarrow> ChatResponseDetail" where
  "payload_with t =
     \<lparr>detail_id = ''id'', detail_created = 0, detail_model = ''gpt-3.5-turbo'',
      detail_usage = None,
      choices = [\<lparr>choice_message = Some \<lparr>rm_role = Assistant, rm_content = t\<rparr>\<rparr>]\<rparr>"

definition reply_with :: "string \<Rightarrow> CreateChatCompletionRequest \<Rightarrow> api_outcome" where
  "reply_with t request =
     Resolved \<lparr>statusText = ''OK'', data = Payload (payload_with t),
               stringify_throws = Some ''Converting circular structure to JSON''\<rparr>"

definition after_first_send :: ChatCompletionAPI where
  "after_first_send = snd (sendMessage (reply_with ''A1'') (fresh_instance 3) (ask ''Q1'') None)"

definition transport_failure :: "CreateChatCompletionRequest \<Rightarrow> api_outcome" where
  "transport_failure request =
     Rejected \<lparr>thrown_message = ''Request failed with status code 401'', thrown_type = None,
               thrown_param = None, thrown_code = Some ''ERR_BAD_REQUEST''\<rparr>"

definition empty_body :: "CreateChatCompletionRequest \<Rightarrow> api_outcome" where
  "empty_body request =
     Resolved \<lparr>statusText = ''No Content'', data = Nullish,
               stringify_throws = Some ''Converting circular structure to JSON''\<rparr>"

definition body_without_choices :: "CreateChatCompletionRequest \<Rightarrow> api_outcome" where
  "body_without_choices request =
     Resolved \<lparr>statusText = ''OK'', data = Without_choices,
               stringify_throws = Some ''Converting circular structure to JSON''\<rparr>"

definition example_opts :: ChatCompletionOpts where
  "example_opts = [''model'' \<mapsto> JStr ''gpt-4'', ''temperature'' \<mapsto> JNum 0.2]"

definition content_opts :: ChatCompletionOpts where
  "content_opts = [''temperature'' \<mapsto> JNum 0.2, ''content'' \<mapsto> JStr ''X'']"

definition two_messages :: "ChatMessage list" where
  "two_messages =
     [\<lparr>role = User, content = ''Q1'', name = Some ''John''\<rparr>,
      \<lparr>role = Assistant, content = ''A1'', name = None\<rparr>]"

text \<open>
  An instance with \<open>maxMessages = 1\<close> and a caller's array of two messages in the store, at
  address 0.
\<close>

definition with_caller_array :: ChatCompletionAPI where
  "with_caller_array = snd (new_array (fresh_instance 1) two_messages)"

text \<open>
  The completion parameters of a call in the words of the specification, for comparison
  with the request that the code builds: the instance's parameters merged with the
  per-call options key by key, a per-call value winning over the instance's value for the
  same key.
\<close>

definition merged_completionParams_spec ::
  "ChatCompletionAPI \<Rightarrow> ChatCompletionOpts option \<Rightarrow> ChatCompletionOpts" where
  "merged_completionParams_spec this opts = spread (completionParams this) opts"

section \<open>Effects of the operations on the store\<close>

text \<open>
  What \<open>getMessageHistory\<close> gives is the stored history, cut by \<open>slice\<close> when it is longer
  than \<open>maxMessages - 1\<close>. The operations keep \<open>maxMessages\<close> and the allocation invariant;
  a push through \<open>getMessageHistory\<close> reaches the stored history only when that is within
  the cap.
\<close>

lemma js_slice_Nil: "js_slice [] k = []"
  by (simp add: js_slice_def Let_def)

lemma history_eq:
  "history this cid =
     (if int (length (stored this cid)) > maxMessages this - 1
      then js_slice (stored this cid) (- (maxMessages this - 1))
      else stored this cid)"
  by (auto simp: history_def stored_def getMessageHistory_def cache_entry_def new_array_def
        deref_def Let_def js_slice_Nil split: option.splits prod.splits)

lemma getMessageHistory_maxMessages:
  "maxMessages (snd (getMessageHistory this cid)) = maxMessages this"
  by (auto simp: getMessageHistory_def cache_entry_def new_array_def Let_def
        split: option.splits prod.splits)

lemma getMessageHistory_allocated:
  "cache_allocated this \<Longrightarrow> cache_allocated (snd (getMessageHistory this cid))"
  by (auto simp: cache_allocated_def getMessageHistory_def cache_entry_def new_array_def Let_def
        less_Suc_eq split: option.splits prod.splits if_splits)

lemma cache_allocatedD:
  "cache_allocated this \<Longrightarrow> messagesCache this cid = Some a \<Longrightarrow> a < next_addr this"
  by (simp add: cache_allocated_def)

lemma getMessageHistory_stored:
  "cache_allocated this \<Longrightarrow> stored (snd (getMessageHistory this cid)) k = stored this k"
  by (auto dest: cache_allocatedD simp: stored_def getMessageHistory_def cache_entry_def
        new_array_def deref_def Let_def split: option.splits prod.splits if_splits)

lemma push_history_maxMessages:
  "maxMessages (push_history this cid m) = maxMessages this"
  by (auto simp: push_history_def array_push_def getMessageHistory_def cache_entry_def
        new_array_def Let_def split: option.splits prod.splits)

lemma push_history_allocated:
  "cache_allocated this \<Longrightarrow> cache_allocated (push_history this cid m)"
  by (auto simp: cache_allocated_def push_history_def array_push_def getMessageHistory_def
        cache_entry_def new_array_def Let_def less_Suc_eq split: option.splits prod.splits if_splits)

lemma push_history_stored:
  "cache_allocated this \<Longrightarrow>
   stored (push_history this cid m) cid =
     (if int (length (stored this cid)) > maxMessages this - 1 then stored this cid
      else stored this cid @ [m])"
  by (auto dest: cache_allocatedD simp: stored_def push_history_def array_push_def
        getMessageHistory_def cache_entry_def new_array_def deref_def Let_def
        split: option.splits prod.splits if_splits)

lemma getMessageHistory_debug:
  "debug (snd (getMessageHistory this cid)) = debug this"
  by (auto simp: getMessageHistory_def cache_entry_def new_array_def Let_def
        split: option.splits prod.splits)

lemma buildMessage_state:
  "snd (buildMessage this cid message sm) = snd (getMessageHistory this cid)"
  by (simp add: buildMessage_def Let_def split: prod.splits)

lemma chatCompletionRequest_state:
  "snd (chatCompletionRequest this req opts) = snd (getMessageHistory this (req_conversationId req))"
  by (simp add: chatCompletionRequest_def buildMessage_state Let_def)

text \<open>
  The submitted list when the per-call options hold none of the keys \<open>name\<close>, \<open>role\<close> and
  \<open>content\<close>: the system message, the history, and the message of the request.
\<close>

lemma role_string_nonempty: "role_string r \<noteq> []"
  by (cases r) simp_all

lemma chatCompletionRequest_messages:
  assumes "\<And>obj. opts = Some obj \<Longrightarrow> obj ''name'' = None \<and> obj ''role'' = None \<and> obj ''content'' = None"
  shows "messages (fst (chatCompletionRequest this req opts)) =
     \<lparr>in_role = JStr ''system'',
      in_content = JStr (case req_systemMessage req of None \<Rightarrow> systemMessage this | Some s \<Rightarrow> s),
      in_name = Undefined\<rparr>
     # map js_message (history this (req_conversationId req))
     @ [js_message \<lparr>role = (case req_role req of None \<Rightarrow> User | Some r \<Rightarrow> r),
                    content = req_text req, name = Some (req_name req)\<rparr>]"
proof (cases opts)
  case None
  then show ?thesis
    by (simp add: chatCompletionRequest_def buildMessage_def history_def spread_def get_prop_def
          js_or_def js_message_def role_string_nonempty Let_def split: prod.splits)
next
  case (Some obj)
  with assms have "obj ''name'' = None" "obj ''role'' = None" "obj ''content'' = None"
    by simp_all
  with Some show ?thesis
    by (simp add: chatCompletionRequest_def buildMessage_def history_def spread_def get_prop_def
          js_or_def js_message_def role_string_nonempty map_add_def Let_def split: prod.splits)
qed

text \<open>\<open>sendMessage\<close>, case by case.\<close>

lemma sendMessage_unfold:
  "sendMessage api this req opts =
     (case api (fst (chatCompletionRequest this req opts)) of
        Rejected e \<Rightarrow>
          (Inl \<lparr>err_message = thrown_message e, err_type = thrown_type e,
                err_param = thrown_param e, err_code = thrown_code e\<rparr>,
           snd (getMessageHistory this (req_conversationId req)))
      | Resolved c \<Rightarrow>
          (case (if debug this then stringify_throws c else None) of
             Some m \<Rightarrow>
               (Inl \<lparr>err_message = m, err_type = None, err_param = None, err_code = None\<rparr>,
                snd (getMessageHistory this (req_conversationId req)))
           | None \<Rightarrow>
               (case first_message c of
                  Inl e \<Rightarrow>
                    (Inl \<lparr>err_message = thrown_message e, err_type = thrown_type e,
                          err_param = thrown_param e, err_code = thrown_code e\<rparr>,
                     snd (getMessageHistory this (req_conversationId req)))
                | Inr None \<Rightarrow>
                    (Inl \<lparr>err_message = statusText c, err_type = None, err_param = None,
                          err_code = None\<rparr>,
                     snd (getMessageHistory this (req_conversationId req)))
                | Inr (Some dm) \<Rightarrow>
                    (Inr \<lparr>role = rm_role (snd dm), content = rm_content (snd dm), name = None,
                          detail = fst dm\<rparr>,
                     push_history
                       (push_history (snd (getMessageHistory this (req_conversationId req)))
                          (req_conversationId req)
                          \<lparr>role = (case req_role req of None \<Rightarrow> User | Some r \<Rightarrow> r),
                           content = req_text req, name = Some (req_name req)\<rparr>)
                       (req_conversationId req)
                       \<lparr>role = rm_role (snd dm), content = rm_content (snd dm),
                        name = None\<rparr>))))"
proof -
  obtain request this' where r: "chatCompletionRequest this req opts = (request, this')"
    by (cases "chatCompletionRequest this req opts")
  then have s: "this' = snd (getMessageHistory this (req_conversationId req))"
    using chatCompletionRequest_state [of this req opts] by simp
  have d: "debug (snd (getMessageHistory this (req_conversationId req))) = debug this"
    by (rule getMessageHistory_debug)
  show ?thesis
    by (simp add: sendMessage_def r s d try_block_def new_CompletionError_def
          throw_CompletionError_def TypeError_def Let_def
          split: api_outcome.splits option.splits sum.splits prod.splits)
qed

lemma sendMessage_isl:
  "isl (fst (sendMessage api this req opts)) \<Longrightarrow>
   snd (sendMessage api this req opts) = snd (getMessageHistory this (req_conversationId req))"
  by (auto simp: sendMessage_unfold split: api_outcome.splits option.splits sum.splits if_splits)

lemma sendMessage_Inr:
  "fst (sendMessage api this req opts) = Inr r \<Longrightarrow>
   snd (sendMessage api this req opts) =
     push_history
       (push_history (snd (getMessageHistory this (req_conversationId req)))
          (req_conversationId req)
          \<lparr>role = (case req_role req of None \<Rightarrow> User | Some x \<Rightarrow> x),
           content = req_text req, name = Some (req_name req)\<rparr>)
       (req_conversationId req)
       \<lparr>role = role r, content = content r, name = None\<rparr>"
  by (auto simp: sendMessage_unfold split: api_outcome.splits option.splits sum.splits if_splits)

lemma constructor_fresh: "constructor (options_with (Some mm)) = Inr (fresh_instance mm)"
  by (simp add: constructor_def options_with_def fresh_instance_def spread_def Let_def)

lemma constructor_default: "constructor (options_with None) = Inr (fresh_instance 100)"
  by (simp add: constructor_def options_with_def fresh_instance_def spread_def
        DEFAULT_MAX_MESSAGES_def Let_def)

lemma constructor_debug:
  "constructor ((options_with None)\<lparr>opt_debug := Some True\<rparr>) = Inr debug_instance"
  by (simp add: constructor_def options_with_def fresh_instance_def debug_instance_def
        spread_def DEFAULT_MAX_MESSAGES_def Let_def)

lemma constructor_allocated: "constructor opts = Inr this \<Longrightarrow> cache_allocated this"
  by (auto simp: constructor_def cache_allocated_def Let_def split: option.splits if_splits)

lemma getMessageHistory_stored_within_cap:
  "int (length (stored this cid)) \<le> maxMessages this - 1 \<Longrightarrow>
   stored (snd (getMessageHistory this cid)) cid = stored this cid"
  by (auto simp: stored_def getMessageHistory_def cache_entry_def new_array_def deref_def Let_def
        split: option.splits prod.splits if_splits)

lemma push_history_within_cap:
  "int (length (stored this cid)) \<le> maxMessages this - 1 \<Longrightarrow>
   stored (push_history this cid m) cid = stored this cid @ [m]"
  by (auto simp: stored_def push_history_def array_push_def getMessageHistory_def
        cache_entry_def new_array_def deref_def Let_def
        split: option.splits prod.splits if_splits)

lemma sendMessage_maxMessages:
  "maxMessages (snd (sendMessage api this req opts)) = maxMessages this"
  by (simp add: sendMessage_unfold push_history_maxMessages getMessageHistory_maxMessages
        split: api_outcome.splits option.splits sum.splits)

lemma sendMessage_allocated:
  "cache_allocated this \<Longrightarrow> cache_allocated (snd (sendMessage api this req opts))"
  by (simp add: sendMessage_unfold push_history_allocated getMessageHistory_allocated
        split: api_outcome.splits option.splits sum.splits)

lemma push_history_debug:
  "debug (push_history this cid m) = debug this"
  by (auto simp: push_history_def array_push_def getMessageHistory_def cache_entry_def
        new_array_def Let_def split: option.splits prod.splits)

lemma sendMessage_debug:
  "debug (snd (sendMessage api this req opts)) = debug this"
  by (simp add: sendMessage_unfold push_history_debug getMessageHistory_debug
        split: api_outcome.splits option.splits sum.splits)

lemma after_first_send_debug: "\<not> debug after_first_send"
  by (simp add: after_first_send_def sendMessage_debug fresh_instance_def)

lemma fresh_instance_allocated: "cache_allocated (fresh_instance mm)"
  by (simp add: cache_allocated_def fresh_instance_def)

lemma after_first_send_allocated: "cache_allocated after_first_send"
  unfolding after_first_send_def by (rule sendMessage_allocated [OF fresh_instance_allocated])

lemma setMessageHistory_allocated:
  "cache_allocated this \<Longrightarrow> a < next_addr this \<Longrightarrow>
   cache_allocated (setMessageHistory this cid a)"
  by (auto simp: cache_allocated_def setMessageHistory_def)

lemma setMessageHistory_stored:
  "stored (setMessageHistory this cid a) cid = deref this a"
  by (simp add: stored_def setMessageHistory_def deref_def)

text \<open>Two conversations that were given the same array share it.\<close>

lemma setMessageHistory_shared:
  "k \<noteq> cid \<Longrightarrow>
   messagesCache (setMessageHistory (setMessageHistory this k a) cid a) k =
   messagesCache (setMessageHistory (setMessageHistory this k a) cid a) cid"
  by (simp add: setMessageHistory_def)

lemma js_slice_recent:
  "0 < m \<Longrightarrow> m < int (length xs) \<Longrightarrow> js_slice xs (- m) = drop (length xs - nat m) xs"
  by (simp add: js_slice_def Let_def nat_diff_distrib' max_def)

lemma history_recent:
  "2 \<le> maxMessages this \<Longrightarrow> maxMessages this - 1 < int (length (stored this cid)) \<Longrightarrow>
   history this cid = drop (length (stored this cid) - nat (maxMessages this - 1)) (stored this cid)"
  using js_slice_recent [of "maxMessages this - 1" "stored this cid"] by (simp add: history_eq)

lemmas eval_defs = sendMessage_unfold chatCompletionRequest_def buildMessage_def
  getMessageHistory_def cache_entry_def new_array_def array_push_def push_history_def
  deref_def js_slice_def history_def stored_def first_message_def fresh_instance_def
  ask_def reply_with_def payload_with_def spread_def get_prop_def js_or_def js_message_def
  Let_def

section \<open>Claims\<close>

subsection \<open>C1: a successful call and the history\<close>

text \<open>
  C1, as stated, fails at the cap. An instance with \<open>maxMessages = 3\<close> has answered one
  call, so that \<open>getMessageHistory\<close> gives two messages for \<open>c1\<close>. A second successful call
  leaves the length of that result at two, and the result is not the earlier one followed
  by the outgoing and the incoming message.
\<close>

theorem sendMessage_at_cap_counterexample:
  "\<not> isl (fst (sendMessage (reply_with ''A2'') after_first_send (ask ''Q2'') None)) \<and>
   history (snd (sendMessage (reply_with ''A2'') after_first_send (ask ''Q2'') None)) ''c1'' \<noteq>
     history after_first_send ''c1'' @
       [\<lparr>role = User, content = ''Q2'', name = Some ''John''\<rparr>,
        \<lparr>role = Assistant, content = ''A2'', name = None\<rparr>] \<and>
   length (history (snd (sendMessage (reply_with ''A2'') after_first_send (ask ''Q2'') None)) ''c1'')
     = length (history after_first_send ''c1'')"
  by (simp add: after_first_send_def eval_defs)

text \<open>
  C1, amended: when the history that \<open>getMessageHistory\<close> gives for the conversation has
  room for two more messages under the cap (its length plus two is at most
  \<open>maxMessages - 1\<close>), then after a successful \<open>sendMessage\<close> it is the earlier history
  followed by the outgoing message (the request's text and name, its role or \<open>user\<close>) and
  then the incoming message (the returned content and role).
\<close>

theorem sendMessage_appends_two:
  assumes room: "int (length (history this (req_conversationId req))) + 2 \<le> maxMessages this - 1"
    and ok: "fst (sendMessage api this req opts) = Inr r"
  shows "history (snd (sendMessage api this req opts)) (req_conversationId req) =
           history this (req_conversationId req) @
             [\<lparr>role = (case req_role req of None \<Rightarrow> User | Some x \<Rightarrow> x), content = req_text req,
               name = Some (req_name req)\<rparr>,
              \<lparr>role = role r, content = content r, name = None\<rparr>]"
proof -
  let ?cid = "req_conversationId req"
  let ?M = "maxMessages this - 1"
  let ?out = "\<lparr>role = (case req_role req of None \<Rightarrow> User | Some x \<Rightarrow> x), content = req_text req,
               name = Some (req_name req)\<rparr>"
  let ?s0 = "snd (getMessageHistory this ?cid)"
  from room have len: "int (length (stored this ?cid)) + 2 \<le> ?M"
    by (auto simp: history_eq js_slice_def Let_def split: if_splits)
  let ?inc = "\<lparr>role = role r, content = content r, name = None\<rparr>"
  let ?s1 = "push_history ?s0 ?cid ?out"
  let ?s2 = "push_history ?s1 ?cid ?inc"
  have final: "snd (sendMessage api this req opts) = ?s2"
    using ok by (rule sendMessage_Inr)
  have m0: "maxMessages ?s0 = maxMessages this"
    by (rule getMessageHistory_maxMessages)
  have st0: "stored ?s0 ?cid = stored this ?cid"
    using len by (intro getMessageHistory_stored_within_cap) simp
  have st1: "stored ?s1 ?cid = stored this ?cid @ [?out]"
    using len m0 st0 push_history_within_cap [of ?s0 ?cid ?out] by simp
  have m1: "maxMessages ?s1 = maxMessages this"
    by (simp add: push_history_maxMessages m0)
  have st2: "stored ?s2 ?cid = stored this ?cid @ [?out, ?inc]"
    using len m1 st1 push_history_within_cap [of ?s1 ?cid ?inc] by simp
  have m2: "maxMessages ?s2 = maxMessages this"
    by (simp add: push_history_maxMessages m0)
  have "history ?s2 ?cid = stored this ?cid @ [?out, ?inc]"
    using len by (simp add: history_eq st2 m2)
  moreover have "history this ?cid = stored this ?cid"
    using len by (simp add: history_eq)
  ultimately show ?thesis
    by (simp add: final)
qed

text \<open>The amended C1 at a new instance with the default cap of 100.\<close>

theorem sendMessage_appends_two_witness:
  "int (length (history (fresh_instance 100) (req_conversationId (ask ''Q1'')))) + 2
     \<le> maxMessages (fresh_instance 100) - 1 \<and>
   fst (sendMessage (reply_with ''A1'') (fresh_instance 100) (ask ''Q1'') None) =
     Inr \<lparr>role = Assistant, content = ''A1'', name = None,
          detail = \<lparr>detail_id = ''id'', detail_created = 0, detail_model = ''gpt-3.5-turbo'',
                    detail_usage = None,
                    choices = [\<lparr>choice_message =
                                  Some \<lparr>rm_role = Assistant, rm_content = ''A1''\<rparr>\<rparr>]\<rparr>\<rparr> \<and>
   history (snd (sendMessage (reply_with ''A1'') (fresh_instance 100) (ask ''Q1'') None)) ''c1'' =
     [\<lparr>role = User, content = ''Q1'', name = Some ''John''\<rparr>,
      \<lparr>role = Assistant, content = ''A1'', name = None\<rparr>]"
proof -
  have room: "int (length (history (fresh_instance 100) (req_conversationId (ask ''Q1'')))) + 2
     \<le> maxMessages (fresh_instance 100) - 1"
    by (simp add: eval_defs)
  have ok: "fst (sendMessage (reply_with ''A1'') (fresh_instance 100) (ask ''Q1'') None) =
     Inr \<lparr>role = Assistant, content = ''A1'', name = None,
          detail = \<lparr>detail_id = ''id'', detail_created = 0, detail_model = ''gpt-3.5-turbo'',
                    detail_usage = None,
                    choices = [\<lparr>choice_message =
                                  Some \<lparr>rm_role = Assistant, rm_content = ''A1''\<rparr>\<rparr>]\<rparr>\<rparr>"
    by (simp add: eval_defs)
  have h0: "history (fresh_instance 100) ''c1'' = []"
    by (simp add: eval_defs)
  show ?thesis
    using room ok sendMessage_appends_two [OF room ok] by (simp add: ask_def h0)
qed

subsection \<open>C2: per-call completion options\<close>

text \<open>
  C2 at a concrete call. The instance holds the default completion parameters and the
  call passes the options \<open>model = gpt-4\<close> and \<open>temperature = 0.2\<close>. The request built for
  the external call carries, besides the messages, the key \<open>model\<close> only, with the
  instance's value \<open>gpt-3.5-turbo\<close>. The merge that C2 describes
  (\<open>merged_completionParams_spec\<close>) has the per-call model and temperature and the
  instance's \<open>top_p\<close> and \<open>presence_penalty\<close>; the request differs from it. The options are
  spread into the message object, of which \<open>buildMessage\<close> reads \<open>name\<close>, \<open>role\<close> and
  \<open>content\<close> only.
\<close>

theorem per_call_options_not_submitted:
  "constructor (options_with None) = Inr (fresh_instance 100) \<and>
   request_params (fst (chatCompletionRequest (fresh_instance 100) (ask ''Q1'') (Some example_opts)))
     = [''model'' \<mapsto> JStr ''gpt-3.5-turbo''] \<and>
   merged_completionParams_spec (fresh_instance 100) (Some example_opts)
     = [''model'' \<mapsto> JStr ''gpt-4'', ''temperature'' \<mapsto> JNum 0.2, ''top_p'' \<mapsto> JNum 1.0,
        ''presence_penalty'' \<mapsto> JNum 1.0] \<and>
   request_params (fst (chatCompletionRequest (fresh_instance 100) (ask ''Q1'') (Some example_opts)))
     \<noteq> merged_completionParams_spec (fresh_instance 100) (Some example_opts)"
proof -
  let ?sent = "request_params
     (fst (chatCompletionRequest (fresh_instance 100) (ask ''Q1'') (Some example_opts)))"
  let ?merged = "merged_completionParams_spec (fresh_instance 100) (Some example_opts)"
  have sent: "?sent = [''model'' \<mapsto> JStr ''gpt-3.5-turbo'']"
    by (simp add: chatCompletionRequest_def buildMessage_def fresh_instance_def get_prop_def
          default_completionParams_def DEFAULT_MODEL_def Let_def split: prod.splits)
  have merged: "?merged =
      [''model'' \<mapsto> JStr ''gpt-4'', ''temperature'' \<mapsto> JNum 0.2, ''top_p'' \<mapsto> JNum 1.0,
       ''presence_penalty'' \<mapsto> JNum 1.0]"
    by (rule ext)
       (simp add: merged_completionParams_spec_def spread_def fresh_instance_def
          default_completionParams_def example_opts_def map_add_def)
  have "?sent ''model'' \<noteq> ?merged ''model''"
    by (simp add: sent merged)
  then have "?sent \<noteq> ?merged"
    by metis
  with sent merged constructor_default show ?thesis
    by simp
qed

subsection \<open>C3: the history under the cap\<close>

text \<open>
  C3 at its own scenario: an instance constructed with \<open>maxMessages = 3\<close>, two successful
  calls on \<open>c1\<close>. The second call pushes its incoming message onto the array that \<open>slice\<close>
  made, not onto the cached one, so \<open>getMessageHistory\<close> then gives the first reply and the
  second question; the second reply \<open>A2\<close> is not in it.
\<close>

theorem maxMessages_3_two_sends:
  "constructor (options_with (Some 3)) = Inr (fresh_instance 3) \<and>
   \<not> isl (fst (sendMessage (reply_with ''A1'') (fresh_instance 3) (ask ''Q1'') None)) \<and>
   \<not> isl (fst (sendMessage (reply_with ''A2'') after_first_send (ask ''Q2'') None)) \<and>
   history (snd (sendMessage (reply_with ''A2'') after_first_send (ask ''Q2'') None)) ''c1'' =
     [\<lparr>role = Assistant, content = ''A1'', name = None\<rparr>,
      \<lparr>role = User, content = ''Q2'', name = Some ''John''\<rparr>]"
  by (simp add: constructor_fresh after_first_send_def eval_defs)

subsection \<open>C4: the submitted message list\<close>

text \<open>
  C4 at a concrete call. A new instance with the defaults gets the request of \<open>John\<close> with
  the text \<open>Q1\<close> on conversation \<open>c1\<close>, and per-call options that hold, next to
  \<open>temperature\<close>, the key \<open>content\<close> with the value \<open>X\<close>. The options are spread into the
  message object after \<open>name\<close>, \<open>content\<close> and \<open>role\<close>, and \<open>buildMessage\<close> reads the last
  message from that object: the submitted list ends with a message whose content is \<open>X\<close>,
  not the request's text. The entry that the same call stores in the history is built from
  the request alone and has the text \<open>Q1\<close>.
\<close>

theorem options_replace_submitted_message:
  "constructor (options_with None) = Inr (fresh_instance 100) \<and>
   messages (fst (chatCompletionRequest (fresh_instance 100) (ask ''Q1'') (Some content_opts))) =
     [\<lparr>in_role = JStr ''system'', in_content = JStr ''You are a helpful assistant.'',
       in_name = Undefined\<rparr>,
      \<lparr>in_role = JStr ''user'', in_content = JStr ''X'', in_name = JStr ''John''\<rparr>] \<and>
   stored (snd (sendMessage (reply_with ''A1'') (fresh_instance 100) (ask ''Q1'')
                  (Some content_opts))) ''c1'' =
     [\<lparr>role = User, content = ''Q1'', name = Some ''John''\<rparr>,
      \<lparr>role = Assistant, content = ''A1'', name = None\<rparr>]"
proof -
  have sent: "messages (fst (chatCompletionRequest (fresh_instance 100) (ask ''Q1'')
                               (Some content_opts))) =
     [\<lparr>in_role = JStr ''system'', in_content = JStr ''You are a helpful assistant.'',
       in_name = Undefined\<rparr>,
      \<lparr>in_role = JStr ''user'', in_content = JStr ''X'', in_name = JStr ''John''\<rparr>]"
    by (simp add: content_opts_def DEFAULT_SYSTEM_MESSAGE_def map_add_def eval_defs)
  have kept: "stored (snd (sendMessage (reply_with ''A1'') (fresh_instance 100) (ask ''Q1'')
                  (Some content_opts))) ''c1'' =
     [\<lparr>role = User, content = ''Q1'', name = Some ''John''\<rparr>,
      \<lparr>role = Assistant, content = ''A1'', name = None\<rparr>]"
    by (simp add: eval_defs)
  from sent kept constructor_default show ?thesis
    by simp
qed

subsection \<open>C5: a failed call leaves the history as it was\<close>

text \<open>
  C5: when \<open>sendMessage\<close> fails (its result is a \<open>CompletionError\<close>), every
  conversation's stored history, and what \<open>getMessageHistory\<close> gives for it, are as before
  the call. For a conversation without an entry the call creates the empty array that
  \<open>getMessageHistory\<close> would create; its stored history is empty before and after.
\<close>

theorem failure_keeps_history:
  assumes "cache_allocated this"
    and "isl (fst (sendMessage api this req opts))"
  shows "stored (snd (sendMessage api this req opts)) k = stored this k \<and>
         history (snd (sendMessage api this req opts)) k = history this k"
proof -
  from assms(2) have "snd (sendMessage api this req opts)
      = snd (getMessageHistory this (req_conversationId req))"
    by (rule sendMessage_isl)
  then show ?thesis
    using assms(1)
    by (simp add: history_eq getMessageHistory_stored getMessageHistory_maxMessages)
qed

text \<open>
  C5 at an instance that has answered one call: a rejected call and a response without a
  body both fail, and the two stored messages stay.
\<close>

theorem failure_keeps_history_witness:
  "cache_allocated after_first_send \<and>
   isl (fst (sendMessage transport_failure after_first_send (ask ''Q2'') None)) \<and>
   isl (fst (sendMessage empty_body after_first_send (ask ''Q2'') None)) \<and>
   stored (snd (sendMessage transport_failure after_first_send (ask ''Q2'') None)) ''c1''
     = [\<lparr>role = User, content = ''Q1'', name = Some ''John''\<rparr>,
        \<lparr>role = Assistant, content = ''A1'', name = None\<rparr>] \<and>
   history (snd (sendMessage empty_body after_first_send (ask ''Q2'') None)) ''c1''
     = [\<lparr>role = User, content = ''Q1'', name = Some ''John''\<rparr>,
        \<lparr>role = Assistant, content = ''A1'', name = None\<rparr>]"
proof -
  have t: "isl (fst (sendMessage transport_failure after_first_send (ask ''Q2'') None))"
    by (simp add: sendMessage_unfold transport_failure_def)
  have e: "isl (fst (sendMessage empty_body after_first_send (ask ''Q2'') None))"
    by (simp add: sendMessage_unfold empty_body_def first_message_def after_first_send_debug)
  have s: "stored after_first_send ''c1''
     = [\<lparr>role = User, content = ''Q1'', name = Some ''John''\<rparr>,
        \<lparr>role = Assistant, content = ''A1'', name = None\<rparr>]"
    by (simp add: after_first_send_def eval_defs)
  have h: "history after_first_send ''c1''
     = [\<lparr>role = User, content = ''Q1'', name = Some ''John''\<rparr>,
        \<lparr>role = Assistant, content = ''A1'', name = None\<rparr>]"
    by (simp add: after_first_send_def eval_defs)
  show ?thesis
    using failure_keeps_history [OF after_first_send_allocated t, of "''c1''"]
      failure_keeps_history [OF after_first_send_allocated e, of "''c1''"]
      after_first_send_allocated t e s h
    by simp
qed

subsection \<open>C6: the ways to fail\<close>

text \<open>
  C6 at two concrete calls that fail in neither of its two ways. First, an instance
  constructed with \<open>debug: true\<close>: the external call delivers a response with a message,
  \<open>JSON.stringify\<close> of the response throws inside \<open>try\<close>, and \<open>sendMessage\<close> fails with that
  TypeError's message; on the instance without \<open>debug\<close> the same call succeeds. Second, a
  response whose body has no \<open>choices\<close>: reading index 0 of \<open>undefined\<close> throws, and
  \<open>sendMessage\<close> fails with the TypeError's message, not with the status text \<open>OK\<close>.
\<close>

theorem debug_output_fails_the_call:
  "constructor ((options_with None)\<lparr>opt_debug := Some True\<rparr>) = Inr debug_instance \<and>
   reply_with ''A1'' request =
     Resolved \<lparr>statusText = ''OK'', data = Payload (payload_with ''A1''),
               stringify_throws = Some ''Converting circular structure to JSON''\<rparr> \<and>
   first_message \<lparr>statusText = ''OK'', data = Payload (payload_with ''A1''),
                  stringify_throws = Some ''Converting circular structure to JSON''\<rparr> =
     Inr (Some (payload_with ''A1'', \<lparr>rm_role = Assistant, rm_content = ''A1''\<rparr>)) \<and>
   fst (sendMessage (reply_with ''A1'') debug_instance (ask ''Q1'') None) =
     Inl \<lparr>err_message = ''Converting circular structure to JSON'', err_type = None,
          err_param = None, err_code = None\<rparr> \<and>
   \<not> isl (fst (sendMessage (reply_with ''A1'') (fresh_instance 100) (ask ''Q1'') None)) \<and>
   fst (sendMessage body_without_choices (fresh_instance 100) (ask ''Q1'') None) =
     Inl \<lparr>err_message = READ_OF_UNDEFINED, err_type = None, err_param = None,
          err_code = None\<rparr> \<and>
   READ_OF_UNDEFINED \<noteq> ''OK''"
proof -
  have msg: "first_message \<lparr>statusText = ''OK'', data = Payload (payload_with ''A1''),
                  stringify_throws = Some ''Converting circular structure to JSON''\<rparr> =
     Inr (Some (payload_with ''A1'', \<lparr>rm_role = Assistant, rm_content = ''A1''\<rparr>))"
    by (simp add: first_message_def payload_with_def)
  have dbg: "fst (sendMessage (reply_with ''A1'') debug_instance (ask ''Q1'') None) =
     Inl \<lparr>err_message = ''Converting circular structure to JSON'', err_type = None,
          err_param = None, err_code = None\<rparr>"
    by (simp add: sendMessage_unfold reply_with_def debug_instance_def)
  have plain: "\<not> isl (fst (sendMessage (reply_with ''A1'') (fresh_instance 100) (ask ''Q1'') None))"
    by (simp add: sendMessage_unfold reply_with_def fresh_instance_def msg)
  have nochoices: "fst (sendMessage body_without_choices (fresh_instance 100) (ask ''Q1'') None) =
     Inl \<lparr>err_message = READ_OF_UNDEFINED, err_type = None, err_param = None,
          err_code = None\<rparr>"
    by (simp add: sendMessage_unfold body_without_choices_def fresh_instance_def
          first_message_def TypeError_def)
  have "READ_OF_UNDEFINED \<noteq> ''OK''"
    by (simp add: READ_OF_UNDEFINED_def)
  with msg dbg plain nochoices constructor_debug show ?thesis
    by (simp add: reply_with_def)
qed

subsection \<open>C7: construction and the defaults\<close>

text \<open>
  C7, as stated, fails for the empty string: a key is supplied, and construction fails.
\<close>

theorem constructor_empty_key_counterexample:
  "opt_apiKey \<lparr>opt_apiKey = Some [], opt_debug = None, opt_completionParams = None,
               opt_systemMessage = None, opt_maxMessages = None\<rparr> \<noteq> None \<and>
   isl (constructor \<lparr>opt_apiKey = Some [], opt_debug = None, opt_completionParams = None,
                     opt_systemMessage = None, opt_maxMessages = None\<rparr>)"
  by (simp add: constructor_def Let_def)

text \<open>
  C7, amended: construction fails, and gives no instance, if and only if the key is absent
  or the empty string; construction with a non-empty key and nothing else gives an
  instance with temperature 0.8, \<open>top_p\<close> 1.0, \<open>presence_penalty\<close> 1.0, the system message
  \<open>You are a helpful assistant.\<close> and a cap of 100 messages.
\<close>

theorem constructor_fails_iff_no_key:
  "(isl (constructor opts) \<longleftrightarrow> opt_apiKey opts = None \<or> opt_apiKey opts = Some []) \<and>
   (k \<noteq> [] \<longrightarrow>
      (\<exists>this. constructor \<lparr>opt_apiKey = Some k, opt_debug = None, opt_completionParams = None,
                            opt_systemMessage = None, opt_maxMessages = None\<rparr> = Inr this \<and>
         completionParams this ''temperature'' = Some (JNum 0.8) \<and>
         completionParams this ''top_p'' = Some (JNum 1.0) \<and>
         completionParams this ''presence_penalty'' = Some (JNum 1.0) \<and>
         systemMessage this = ''You are a helpful assistant.'' \<and>
         maxMessages this = 100))"
  by (auto simp: constructor_def spread_def default_completionParams_def
        DEFAULT_SYSTEM_MESSAGE_def DEFAULT_MAX_MESSAGES_def Let_def split: option.splits)

text \<open>
  The amended C7 at options without a key and at options with the key \<open>k\<close> only.
\<close>

theorem constructor_fails_iff_no_key_witness:
  "isl (constructor ((options_with None)\<lparr>opt_apiKey := None\<rparr>)) \<and>
   \<not> isl (constructor (options_with None)) \<and>
   ''k'' \<noteq> [] \<and>
   constructor (options_with None) =
     Inr \<lparr>arrays = Map.empty, next_addr = 0, messagesCache = Map.empty,
          completionParams = default_completionParams,
          systemMessage = ''You are a helpful assistant.'', debug = False, apiKey = ''k'',
          maxMessages = 100\<rparr>"
proof -
  have "isl (constructor ((options_with None)\<lparr>opt_apiKey := None\<rparr>))"
    using constructor_fails_iff_no_key [of "(options_with None)\<lparr>opt_apiKey := None\<rparr>" "''k''"]
    by simp
  moreover have "\<not> isl (constructor (options_with None))"
    using constructor_fails_iff_no_key [of "options_with None" "''k''"]
    by (simp add: options_with_def)
  moreover have "constructor (options_with None) =
     Inr \<lparr>arrays = Map.empty, next_addr = 0, messagesCache = Map.empty,
          completionParams = default_completionParams,
          systemMessage = ''You are a helpful assistant.'', debug = False, apiKey = ''k'',
          maxMessages = 100\<rparr>"
    by (simp add: constructor_def options_with_def spread_def DEFAULT_SYSTEM_MESSAGE_def
          DEFAULT_MAX_MESSAGES_def Let_def)
  ultimately show ?thesis by simp
qed

subsection \<open>C8: a cap of one message\<close>

text \<open>
  C8: in an instance with \<open>maxMessages = 1\<close>, for a conversation with a non-empty stored
  history, \<open>getMessageHistory\<close> gives the whole stored history, not the empty list: the
  bound of the slice is \<open>-0\<close>.
\<close>

theorem maxMessages_1_no_trimming:
  assumes "maxMessages this = 1" and "0 < length (stored this cid)"
  shows "history this cid = stored this cid \<and> history this cid \<noteq> []"
  using assms by (simp add: history_eq js_slice_def Let_def)

text \<open>
  C8 at an instance with \<open>maxMessages = 1\<close> whose history for \<open>c1\<close> was set to a caller's
  array of two messages.
\<close>

theorem maxMessages_1_no_trimming_witness:
  "maxMessages (setMessageHistory with_caller_array ''c1'' 0) = 1 \<and>
   0 < length (stored (setMessageHistory with_caller_array ''c1'' 0) ''c1'') \<and>
   history (setMessageHistory with_caller_array ''c1'' 0) ''c1'' =
     [\<lparr>role = User, content = ''Q1'', name = Some ''John''\<rparr>,
      \<lparr>role = Assistant, content = ''A1'', name = None\<rparr>]"
proof -
  let ?s = "setMessageHistory with_caller_array ''c1'' 0"
  have m: "maxMessages ?s = 1"
    by (simp add: setMessageHistory_def with_caller_array_def new_array_def fresh_instance_def)
  have st: "stored ?s ''c1'' = [\<lparr>role = User, content = ''Q1'', name = Some ''John''\<rparr>,
       \<lparr>role = Assistant, content = ''A1'', name = None\<rparr>]"
    by (simp add: setMessageHistory_stored with_caller_array_def new_array_def fresh_instance_def
          deref_def two_messages_def)
  have n: "0 < length (stored ?s ''c1'')"
    by (simp add: st)
  show ?thesis
    using maxMessages_1_no_trimming [OF m n] m n st by simp
qed

subsection \<open>C9: the empty key\<close>

text \<open>
  C9: construction with the empty string as key fails with the same error as
  construction without key, whatever the other options are.
\<close>

theorem constructor_rejects_empty_key:
  "constructor (opts\<lparr>opt_apiKey := Some []\<rparr>) = Inl (Error ''OpenAI missing required apiKey'') \<and>
   constructor (opts\<lparr>opt_apiKey := None\<rparr>) = Inl (Error ''OpenAI missing required apiKey'')"
  by (simp add: constructor_def Let_def)

subsection \<open>C10: the stored outgoing message\<close>

text \<open>
  C10: for every per-call options object, a successful \<open>sendMessage\<close> ends in the state
  that two pushes on the conversation's history give, the first one of the message with
  the request's role or \<open>user\<close>, its text and its name and nothing else. When the stored
  history is within the cap, this push reaches the cached array and the stored history
  continues with exactly that entry. (Above the cap \<open>getMessageHistory\<close> hands out a copy and
  no entry is stored.)
\<close>

theorem stored_outgoing_message:
  assumes alloc: "cache_allocated this"
    and ok: "fst (sendMessage api this req opts) = Inr r"
  shows "snd (sendMessage api this req opts) =
           push_history
             (push_history (snd (getMessageHistory this (req_conversationId req)))
                (req_conversationId req)
                \<lparr>role = (case req_role req of None \<Rightarrow> User | Some x \<Rightarrow> x),
                 content = req_text req, name = Some (req_name req)\<rparr>)
             (req_conversationId req)
             \<lparr>role = role r, content = content r, name = None\<rparr> \<and>
         (int (length (stored this (req_conversationId req))) \<le> maxMessages this - 1 \<longrightarrow>
            take (Suc (length (stored this (req_conversationId req))))
              (stored (snd (sendMessage api this req opts)) (req_conversationId req)) =
            stored this (req_conversationId req) @
              [\<lparr>role = (case req_role req of None \<Rightarrow> User | Some x \<Rightarrow> x),
                content = req_text req, name = Some (req_name req)\<rparr>])"
proof -
  let ?cid = "req_conversationId req"
  let ?out = "\<lparr>role = (case req_role req of None \<Rightarrow> User | Some x \<Rightarrow> x), content = req_text req,
               name = Some (req_name req)\<rparr>"
  let ?inc = "\<lparr>role = role r, content = content r, name = None\<rparr>"
  let ?s0 = "snd (getMessageHistory this ?cid)"
  let ?s1 = "push_history ?s0 ?cid ?out"
  let ?s2 = "push_history ?s1 ?cid ?inc"
  from ok have final: "snd (sendMessage api this req opts) = ?s2"
    by (rule sendMessage_Inr)
  have a0: "cache_allocated ?s0"
    using alloc by (rule getMessageHistory_allocated)
  have m0: "maxMessages ?s0 = maxMessages this"
    by (simp add: getMessageHistory_maxMessages)
  have st0: "stored ?s0 ?cid = stored this ?cid"
    using alloc by (rule getMessageHistory_stored)
  have a1: "cache_allocated ?s1"
    using a0 by (rule push_history_allocated)
  have entry: "take (Suc (length (stored this ?cid))) (stored ?s2 ?cid) = stored this ?cid @ [?out]"
    if room: "int (length (stored this ?cid)) \<le> maxMessages this - 1"
  proof -
    have st1: "stored ?s1 ?cid = stored this ?cid @ [?out]"
      using room by (simp add: push_history_stored [OF a0] m0 st0)
    have "stored ?s2 ?cid = stored this ?cid @ [?out] \<or>
          stored ?s2 ?cid = (stored this ?cid @ [?out]) @ [?inc]"
      by (simp add: push_history_stored [OF a1] st1)
    then show ?thesis
      by auto
  qed
  from final entry show ?thesis
    by simp
qed

text \<open>
  C10 at the second call of an instance with \<open>maxMessages = 3\<close>, with per-call options.
\<close>

theorem stored_outgoing_message_witness:
  "cache_allocated after_first_send \<and>
   fst (sendMessage (reply_with ''A2'') after_first_send (ask ''Q2'') (Some example_opts))
     = Inr \<lparr>role = Assistant, content = ''A2'', name = None,
            detail = \<lparr>detail_id = ''id'', detail_created = 0, detail_model = ''gpt-3.5-turbo'',
                      detail_usage = None,
                      choices = [\<lparr>choice_message =
                                    Some \<lparr>rm_role = Assistant, rm_content = ''A2''\<rparr>\<rparr>]\<rparr>\<rparr> \<and>
   int (length (stored after_first_send (req_conversationId (ask ''Q2''))))
     \<le> maxMessages after_first_send - 1 \<and>
   take 3 (stored (snd (sendMessage (reply_with ''A2'') after_first_send (ask ''Q2'')
                         (Some example_opts))) ''c1'') =
     [\<lparr>role = User, content = ''Q1'', name = Some ''John''\<rparr>,
      \<lparr>role = Assistant, content = ''A1'', name = None\<rparr>,
      \<lparr>role = User, content = ''Q2'', name = Some ''John''\<rparr>]"
proof -
  have ok: "fst (sendMessage (reply_with ''A2'') after_first_send (ask ''Q2'') (Some example_opts))
     = Inr \<lparr>role = Assistant, content = ''A2'', name = None,
            detail = \<lparr>detail_id = ''id'', detail_created = 0, detail_model = ''gpt-3.5-turbo'',
                      detail_usage = None,
                      choices = [\<lparr>choice_message =
                                    Some \<lparr>rm_role = Assistant, rm_content = ''A2''\<rparr>\<rparr>]\<rparr>\<rparr>"
    by (simp add: sendMessage_unfold reply_with_def first_message_def payload_with_def
          after_first_send_debug)
  have s: "stored after_first_send ''c1''
     = [\<lparr>role = User, content = ''Q1'', name = Some ''John''\<rparr>,
        \<lparr>role = Assistant, content = ''A1'', name = None\<rparr>]"
    by (simp add: after_first_send_def eval_defs)
  have m: "maxMessages after_first_send = 3"
    by (simp add: after_first_send_def sendMessage_maxMessages fresh_instance_def)
  have room: "int (length (stored after_first_send (req_conversationId (ask ''Q2''))))
     \<le> maxMessages after_first_send - 1"
    by (simp add: ask_def s m)
  have "take (Suc (length (stored after_first_send (req_conversationId (ask ''Q2'')))))
          (stored (snd (sendMessage (reply_with ''A2'') after_first_send (ask ''Q2'')
                         (Some example_opts))) (req_conversationId (ask ''Q2''))) =
        stored after_first_send (req_conversationId (ask ''Q2'')) @
          [\<lparr>role = (case req_role (ask ''Q2'') of None \<Rightarrow> User | Some x \<Rightarrow> x),
            content = req_text (ask ''Q2''), name = Some (req_name (ask ''Q2''))\<rparr>]"
    using stored_outgoing_message [OF after_first_send_allocated ok] room by blast
  then have "take 3 (stored (snd (sendMessage (reply_with ''A2'') after_first_send (ask ''Q2'')
                         (Some example_opts))) ''c1'') =
     [\<lparr>role = User, content = ''Q1'', name = Some ''John''\<rparr>,
      \<lparr>role = Assistant, content = ''A1'', name = None\<rparr>,
      \<lparr>role = User, content = ''Q2'', name = Some ''John''\<rparr>]"
    by (simp add: ask_def s numeral_3_eq_3)
  with after_first_send_allocated ok room show ?thesis
    by simp
qed

end
